theory Spec2Isabelle
  imports Main "HOL-Library.AList"
begin

section \<open>Job status (class JobStatus of flow/manage.py)\<close>

text \<open>
  \<^verbatim>\<open>JobStatus\<close> is a Python \<^verbatim>\<open>IntEnum\<close>: nine members, each an integer. The datatype
  lists the members in their order of declaration; \<open>status_int\<close> is the member's value,
  what \<^verbatim>\<open>int(status)\<close> returns, and every comparison of two members compares these
  values.
\<close>

datatype JobStatus =
  unknown | registered | inactive | submitted | held | queued | active | error | user

fun status_int :: "JobStatus \<Rightarrow> int" where
  "status_int unknown = 1"
| "status_int registered = 2"
| "status_int inactive = 3"
| "status_int submitted = 4"
| "status_int held = 5"
| "status_int queued = 6"
| "status_int active = 7"
| "status_int error = 8"
| "status_int user = 128"

text \<open>
  Python's \<^verbatim>\<open>max(a, b)\<close> with two arguments keeps the first argument unless the second
  is strictly greater. \<open>py_max\<close> is that function on integers, \<open>max_JobStatus\<close> the same
  on members of the enumeration (which compare by value).
\<close>

definition py_max :: "int \<Rightarrow> int \<Rightarrow> int" where
  "py_max a b = (if b > a then b else a)"

definition max_JobStatus :: "JobStatus \<Rightarrow> JobStatus \<Rightarrow> JobStatus" where
  "max_JobStatus a b = (if status_int b > status_int a then b else a)"

text \<open>The members below the user range, in the order the class declares them.\<close>

definition builtin_stati :: "JobStatus list" where
  "builtin_stati =
     [unknown, registered, inactive, submitted, held, queued, active, error]"

section \<open>Exceptions and results\<close>

text \<open>
  The exceptions that occur in the module: \<^verbatim>\<open>KeyError\<close> from a missing dictionary key,
  \<^verbatim>\<open>TypeError\<close> from comparing \<^verbatim>\<open>None\<close> with an integer, \<^verbatim>\<open>AssertionError\<close> from the
  \<^verbatim>\<open>assert\<close> in \<^verbatim>\<open>submit\<close>, and whatever the scheduler environment raises:
  \<open>SchedulerError msg\<close> stands for any exception derived from \<^verbatim>\<open>Exception\<close>, while
  \<^verbatim>\<open>KeyboardInterrupt\<close> and \<^verbatim>\<open>SystemExit\<close> derive from \<^verbatim>\<open>BaseException\<close> only.
  \<open>is_Exception e\<close> is \<^verbatim>\<open>isinstance(e, Exception)\<close>, what an \<^verbatim>\<open>except Exception:\<close>
  clause tests.
\<close>

datatype exn =
  KeyError | TypeError | AssertionError | SchedulerError string
  | KeyboardInterrupt | SystemExit

fun is_Exception :: "exn \<Rightarrow> bool" where
  "is_Exception KeyboardInterrupt = False"
| "is_Exception SystemExit = False"
| "is_Exception _ = True"

datatype 'a result = Returned 'a | Raised exn

section \<open>Cluster jobs and the job document\<close>

text \<open>
  A \<^verbatim>\<open>ClusterJob\<close> holds the scheduler's id and a status; the constructor's default for
  the status is \<^verbatim>\<open>None\<close>. \<^verbatim>\<open>cjob.status()\<close> returns the stored field.
\<close>

record ClusterJob =
  cj_job_id :: string
  cj_status :: "int option"

definition status :: "ClusterJob \<Rightarrow> int option" where
  "status cjob = cj_status cjob"

text \<open>
  The status document is a Python dictionary from job-submission-id to integer: an
  association list, looked up with \<open>map_of\<close> and assigned with \<open>AList.update\<close> (an
  existing key keeps its place, a new key goes to the end, as in a Python dictionary).
  Of a job the module uses its string form (in the job-submission-id) and the entry
  \<^verbatim>\<open>'status'\<close> of \<^verbatim>\<open>job.document\<close>, which may be missing.
\<close>

type_synonym status_doc = "(string \<times> int) list"

record job =
  job_str :: string
  doc_status :: "status_doc option"

text \<open>\<^verbatim>\<open>job.document.get('status', dict())\<close>\<close>

definition get_status_doc :: "job \<Rightarrow> status_doc" where
  "get_status_doc j = (case doc_status j of None \<Rightarrow> [] | Some d \<Rightarrow> d)"

text \<open>\<^verbatim>\<open>job.document['status'] = status_doc\<close>\<close>

definition put_status_doc :: "status_doc \<Rightarrow> job \<Rightarrow> job" where
  "put_status_doc d j = j\<lparr>doc_status := Some d\<rparr>"

section \<open>Status reconciliation\<close>

fun status_local :: "string \<Rightarrow> JobStatus" where
  "status_local jobsid = unknown"

text \<open>
  \<^verbatim>\<open>_status_scheduler\<close>: \<^verbatim>\<open>max(JobStatus.registered, cjob.status())\<close> raises
  \<^verbatim>\<open>TypeError\<close> when the cluster job carries no status (Python 3 does not order
  \<^verbatim>\<open>None\<close> and an integer).
\<close>

definition status_scheduler :: "string \<Rightarrow> (string \<rightharpoonup> ClusterJob) \<Rightarrow> exn + int" where
  "status_scheduler jobsid scheduler_jobs =
     (case scheduler_jobs jobsid of
        None \<Rightarrow> Inr (status_int unknown)
      | Some cjob \<Rightarrow>
          (case status cjob of
             None \<Rightarrow> Inl TypeError
           | Some reported \<Rightarrow> Inr (py_max (status_int registered) reported)))"

text \<open>The status computed for one id in the loop body of \<^verbatim>\<open>update_status\<close>.\<close>

definition new_status :: "string \<Rightarrow> (string \<rightharpoonup> ClusterJob) option \<Rightarrow> exn + int" where
  "new_status jobsid scheduler_jobs =
     (let st = status_int (status_local jobsid) in
      case scheduler_jobs of
        None \<Rightarrow> Inr st
      | Some sj \<Rightarrow>
          (case status_scheduler jobsid sj of
             Inl e \<Rightarrow> Inl e
           | Inr s \<Rightarrow> Inr (py_max s st)))"

text \<open>
  The loop of \<^verbatim>\<open>update_status\<close> over the keys of the status document. Each round
  assigns the key in the local dictionary and writes the dictionary back to the job
  document; an exception leaves the loop with what was written so far.
\<close>

fun update_loop ::
  "string list \<Rightarrow> (string \<rightharpoonup> ClusterJob) option \<Rightarrow> status_doc \<Rightarrow> job \<Rightarrow> unit result \<times> job"
where
  "update_loop [] scheduler_jobs status_doc j = (Returned (), j)"
| "update_loop (jobsid # rest) scheduler_jobs status_doc j =
     (case new_status jobsid scheduler_jobs of
        Inl e \<Rightarrow> (Raised e, j)
      | Inr st \<Rightarrow>
          (let status_doc' = AList.update jobsid st status_doc
           in update_loop rest scheduler_jobs status_doc' (put_status_doc status_doc' j)))"

text \<open>
  \<^verbatim>\<open>update_status(job, scheduler_jobs=None)\<close>; \<^verbatim>\<open>setdefault\<close> stores an empty
  dictionary when the document has no \<^verbatim>\<open>'status'\<close> entry.
\<close>

definition update_status :: "job \<Rightarrow> (string \<rightharpoonup> ClusterJob) option \<Rightarrow> unit result \<times> job" where
  "update_status j scheduler_jobs =
     (let status_doc = get_status_doc j;
          j0 = (case doc_status j of None \<Rightarrow> put_status_doc [] j | Some _ \<Rightarrow> j)
      in update_loop (map fst status_doc) scheduler_jobs status_doc j0)"

section \<open>Submission\<close>

text \<open>
  The scheduler environment is outside the module. A call of \<^verbatim>\<open>env.submit\<close> carries
  the job-submission-id, the script, the pretend flag and the extra arguments; it returns
  a Python value (used for its truth value only) or raises. What happens is recorded in a
  trace, so that the order of document writes and scheduler calls can be stated: an
  environment is a function from the trace so far and the call to the outcome.
\<close>

datatype pyval = PyNone | PyBool bool | PyInt int | PyStr string

fun truthy :: "pyval \<Rightarrow> bool" where
  "truthy PyNone = False"
| "truthy (PyBool b) = b"
| "truthy (PyInt i) = (i \<noteq> 0)"
| "truthy (PyStr s) = (s \<noteq> [])"

record call =
  c_jobsid :: string
  c_script :: string
  c_pretend :: bool
  c_args :: "string list"

datatype event =
  DocWrite string status_doc  \<comment> \<open>job, and the dictionary stored under \<^verbatim>\<open>'status'\<close>\<close>
  | EnvSubmit call

type_synonym env = "event list \<Rightarrow> call \<Rightarrow> pyval result"

text \<open>
  A project has a string form and opens a job for a state point. The state threaded
  through \<^verbatim>\<open>submit\<close> is the jobs of the project (with their documents) and the trace.
\<close>

record 'sp project =
  project_str :: string
  jobs :: "'sp \<Rightarrow> job"

record 'sp state =
  proj :: "'sp project"
  trace :: "event list"

definition open_job :: "'sp project \<Rightarrow> 'sp \<Rightarrow> job" where
  "open_job p state_point = jobs p state_point"

text \<open>\<^verbatim>\<open>'{}-{}-{}'.format(project, job, identifier)\<close>\<close>

definition jobsid_of :: "string \<Rightarrow> string \<Rightarrow> string \<Rightarrow> string" where
  "jobsid_of p j identifier = p @ ''-'' @ j @ ''-'' @ identifier"

text \<open>\<^verbatim>\<open>job.document['status'][jobsid]\<close>, a \<^verbatim>\<open>KeyError\<close> when either key is missing.\<close>

definition lookup_status :: "job \<Rightarrow> string \<Rightarrow> exn + int" where
  "lookup_status j jobsid =
     (case doc_status j of
        None \<Rightarrow> Inl KeyError
      | Some d \<Rightarrow> (case map_of d jobsid of None \<Rightarrow> Inl KeyError | Some v \<Rightarrow> Inr v))"

text \<open>The inner function \<^verbatim>\<open>set_status\<close> of \<^verbatim>\<open>submit\<close>, for the job opened at \<open>state_point\<close>.\<close>

definition set_status :: "'sp \<Rightarrow> string \<Rightarrow> JobStatus \<Rightarrow> 'sp state \<Rightarrow> 'sp state" where
  "set_status state_point jobsid v s =
     (let j = open_job (proj s) state_point;
          status_doc = AList.update jobsid (status_int v) (get_status_doc j)
      in s\<lparr>proj := (proj s)\<lparr>jobs := (jobs (proj s))(state_point := put_status_doc status_doc j)\<rparr>,
           trace := trace s @ [DocWrite (job_str j) status_doc]\<rparr>)"

text \<open>
  \<^verbatim>\<open>assert pretend or env.submit(...)\<close>: with \<^verbatim>\<open>pretend\<close> the call is not evaluated;
  otherwise the environment is called, and a false result fails the assertion. (The
  module is taken as run without \<^verbatim>\<open>-O\<close>, which would remove the statement.)
\<close>

definition attempt :: "env \<Rightarrow> call \<Rightarrow> 'sp state \<Rightarrow> unit result \<times> 'sp state" where
  "attempt e c s =
     (if c_pretend c then (Returned (), s)
      else
        (let s' = s\<lparr>trace := trace s @ [EnvSubmit c]\<rparr> in
         case e (trace s) c of
           Raised x \<Rightarrow> (Raised x, s')
         | Returned v \<Rightarrow> if truthy v then (Returned (), s') else (Raised AssertionError, s')))"

text \<open>The \<^verbatim>\<open>try\<close> statement around the assertion, with its \<^verbatim>\<open>except Exception\<close> and \<^verbatim>\<open>else\<close>.\<close>

definition try_submit ::
  "env \<Rightarrow> 'sp \<Rightarrow> call \<Rightarrow> 'sp state \<Rightarrow> bool result \<times> 'sp state"
where
  "try_submit e state_point c s =
     (case attempt e c s of
        (Raised x, s') \<Rightarrow>
          if is_Exception x then (Raised x, set_status state_point (c_jobsid c) error s')
          else (Raised x, s')
      | (Returned _, s') \<Rightarrow> (Returned True, set_status state_point (c_jobsid c) submitted s'))"

text \<open>The job-submission-id that \<^verbatim>\<open>submit\<close> derives for a state point and an identifier.\<close>

definition jobsid_for :: "'sp state \<Rightarrow> 'sp \<Rightarrow> string \<Rightarrow> string" where
  "jobsid_for s state_point identifier =
     jobsid_of (project_str (proj s)) (job_str (open_job (proj s) state_point)) identifier"

text \<open>
  The first \<^verbatim>\<open>try\<close> statement of \<^verbatim>\<open>submit\<close>: read the status; on \<^verbatim>\<open>KeyError\<close> set it
  to registered and read it again.
\<close>

definition init_status :: "'sp \<Rightarrow> string \<Rightarrow> 'sp state \<Rightarrow> int result \<times> 'sp state" where
  "init_status state_point jobsid s =
     (case lookup_status (open_job (proj s) state_point) jobsid of
        Inr st \<Rightarrow> (Returned st, s)
      | Inl x \<Rightarrow>
          if x = KeyError then
            (let s' = set_status state_point jobsid registered s in
             case lookup_status (open_job (proj s') state_point) jobsid of
               Inr st \<Rightarrow> (Returned st, s')
             | Inl y \<Rightarrow> (Raised y, s'))
          else (Raised x, s))"

text \<open>
  The gate: \<^verbatim>\<open>if not force: if status >= JobStatus.submitted: return False\<close>. In
  \<open>submit\<close> below, the \<^verbatim>\<open>project\<close> argument of the source is the component \<open>proj\<close> of
  the state, and \<open>args\<close> stands for the extra arguments passed through to the environment.
\<close>

definition blocked :: "bool \<Rightarrow> int \<Rightarrow> bool" where
  "blocked force st = (\<not> force \<and> st \<ge> status_int submitted)"

definition submit ::
  "env \<Rightarrow> 'sp \<Rightarrow> string \<Rightarrow> string \<Rightarrow> bool \<Rightarrow> bool \<Rightarrow> string list \<Rightarrow> 'sp state
     \<Rightarrow> bool result \<times> 'sp state"
where
  "submit e state_point script identifier force pretend args s =
     (let jobsid = jobsid_for s state_point identifier in
      case init_status state_point jobsid s of
        (Raised x, s1) \<Rightarrow> (Raised x, s1)
      | (Returned st, s1) \<Rightarrow>
          if blocked force st then (Returned False, s1)
          else try_submit e state_point
                 \<lparr>c_jobsid = jobsid, c_script = script, c_pretend = pretend, c_args = args\<rparr> s1)"

text \<open>The events of a trace that are calls of the scheduler environment.\<close>

fun is_call :: "event \<Rightarrow> bool" where
  "is_call (EnvSubmit c) = True"
| "is_call (DocWrite j d) = False"

definition calls :: "event list \<Rightarrow> event list" where
  "calls t = filter is_call t"

section \<open>Example data\<close>

text \<open>
  A job with three entries in its status document, and a scheduler that knows two of
  them: one reported as unknown, one as inactive.
\<close>

definition example_job :: job where
  "example_job =
     \<lparr>job_str = ''j1'',
      doc_status = Some [(''p-j1-default'', 4), (''p-j1-gpu'', 7), (''p-j1-old'', 3)]\<rparr>"

definition example_scheduler :: "string \<rightharpoonup> ClusterJob" where
  "example_scheduler =
     [''p-j1-default'' \<mapsto> \<lparr>cj_job_id = ''1001'', cj_status = Some 1\<rparr>,
      ''p-j1-gpu'' \<mapsto> \<lparr>cj_job_id = ''1002'', cj_status = Some 3\<rparr>,
      ''p-j2-default'' \<mapsto> \<lparr>cj_job_id = ''1003'', cj_status = Some 7\<rparr>]"

text \<open>
  A job with two entries, and a scheduler that holds a cluster job for each: the one for
  \<^verbatim>\<open>a\<close> reports held (5), the one for \<^verbatim>\<open>b\<close> was built as \<^verbatim>\<open>ClusterJob('2')\<close> and has
  no status.
\<close>

definition unreported_job :: job where
  "unreported_job = \<lparr>job_str = ''j2'', doc_status = Some [(''b'', 7), (''a'', 4)]\<rparr>"

definition unreported_scheduler :: "string \<rightharpoonup> ClusterJob" where
  "unreported_scheduler =
     [''a'' \<mapsto> \<lparr>cj_job_id = ''1'', cj_status = Some 5\<rparr>,
      ''b'' \<mapsto> \<lparr>cj_job_id = ''2'', cj_status = None\<rparr>]"

text \<open>
  A project \<^verbatim>\<open>p\<close> whose state points are numbers: state point 0 opens a job with an
  empty document, every other state point opens \<open>example_job\<close>. Nothing has happened yet.
\<close>

definition example_state :: "nat state" where
  "example_state =
     \<lparr>proj = \<lparr>project_str = ''p'',
               jobs = (\<lambda>sp. if sp = 0 then \<lparr>job_str = ''j0'', doc_status = None\<rparr>
                            else example_job)\<rparr>,
      trace = []\<rparr>"

text \<open>Environments: one that accepts every job, one that refuses, two that raise.\<close>

definition env_accept :: env where
  "env_accept t c = Returned (PyBool True)"

definition env_refuse :: env where
  "env_refuse t c = Returned PyNone"

definition env_fail :: env where
  "env_fail t c = Raised (SchedulerError ''queue full'')"

definition env_interrupt :: env where
  "env_interrupt t c = Raised KeyboardInterrupt"

section \<open>The order of the stati\<close>

lemma builtin_user_UNIV: "set (builtin_stati @ [user]) = UNIV"
proof -
  have "s \<in> set (builtin_stati @ [user])" for s
    by (cases s) (simp_all add: builtin_stati_def)
  then show ?thesis by blast
qed

text \<open>
  Claim C7. The members of the enumeration are ordered by their values: along the declared
  order unknown, registered, inactive, submitted, held, queued, active, error, user the
  values increase strictly; these are all the members, distinct members have distinct
  values and any two are comparable. \<^verbatim>\<open>max(a, b)\<close> is one of its arguments and its
  value is the greater of the two values. The user range starts at 128, above every
  built-in member.
\<close>

theorem JobStatus_total_order:
  "sorted_wrt (<) (map status_int (builtin_stati @ [user]))
   \<and> set (builtin_stati @ [user]) = UNIV
   \<and> inj status_int
   \<and> (status_int a \<le> status_int b \<or> status_int b \<le> status_int a)
   \<and> max_JobStatus a b \<in> {a, b}
   \<and> status_int (max_JobStatus a b) = max (status_int a) (status_int b)
   \<and> status_int user = 128"
proof -
  have chain: "sorted_wrt (<) (map status_int (builtin_stati @ [user]))"
    by (simp add: builtin_stati_def)
  have inj: "inj status_int"
  proof (rule injI)
    fix x y assume "status_int x = status_int y"
    then show "x = y" by (cases x; cases y) simp_all
  qed
  have mx: "max_JobStatus a b \<in> {a, b}"
    "status_int (max_JobStatus a b) = max (status_int a) (status_int b)"
    by (simp_all add: max_JobStatus_def)
  show ?thesis using chain inj mx builtin_user_UNIV by (simp add: linear)
qed

section \<open>Properties of the reconciliation\<close>

lemma py_max_eq_max: "py_max a b = max a b"
  by (simp add: py_max_def max_def)

lemma get_put_status_doc [simp]: "get_status_doc (put_status_doc d j) = d"
  by (simp add: get_status_doc_def put_status_doc_def)

lemma put_put_status_doc [simp]: "put_status_doc d (put_status_doc d' j) = put_status_doc d j"
  by (simp add: put_status_doc_def)

lemma update_keys_present:
  "k \<in> fst ` set al \<Longrightarrow> map fst (AList.update k v al) = map fst al"
  by (simp add: update_keys)

text \<open>The keys of the document are the same after the loop, whether it returns or raises.\<close>

lemma update_loop_keys:
  "set ks \<subseteq> fst ` set sd \<Longrightarrow> get_status_doc j = sd \<Longrightarrow>
   map fst (get_status_doc (snd (update_loop ks sj sd j))) = map fst sd"
proof (induction ks arbitrary: sd j)
  case Nil
  then show ?case by simp
next
  case (Cons k ks)
  show ?case
  proof (cases "new_status k sj")
    case (Inl e)
    with Cons.prems show ?thesis by simp
  next
    case (Inr st)
    let ?sd = "AList.update k st sd"
    from Cons.prems have keys: "map fst ?sd = map fst sd"
      by (simp add: update_keys_present)
    then have "fst ` set ?sd = fst ` set sd"
      by (metis list.set_map)
    with Cons.prems have sub: "set ks \<subseteq> fst ` set ?sd" by simp
    have "map fst (get_status_doc (snd (update_loop ks sj ?sd (put_status_doc ?sd j)))) = map fst ?sd"
      by (rule Cons.IH [OF sub]) simp
    with Inr keys show ?thesis by (simp add: Let_def)
  qed
qed

text \<open>When every id gets a status, the loop returns and has assigned each of them.\<close>

lemma update_loop_returns:
  "\<forall>k \<in> set ks. new_status k sj = Inr (f k) \<Longrightarrow>
   \<exists>sd'. update_loop ks sj sd j = (Returned (), if ks = [] then j else put_status_doc sd' j)
       \<and> (\<forall>k. map_of sd' k = (if k \<in> set ks then Some (f k) else map_of sd k))"
proof (induction ks arbitrary: sd j)
  case Nil
  show ?case by (intro exI [of _ sd]) simp
next
  case (Cons k ks)
  let ?sd = "AList.update k (f k) sd"
  from Cons.prems have new: "new_status k sj = Inr (f k)" by simp
  from Cons.prems have "\<forall>k \<in> set ks. new_status k sj = Inr (f k)" by simp
  from Cons.IH [OF this, of ?sd "put_status_doc ?sd j"]
  obtain sd' where
    run: "update_loop ks sj ?sd (put_status_doc ?sd j) =
            (Returned (), if ks = [] then put_status_doc ?sd j else put_status_doc sd' (put_status_doc ?sd j))"
    and val: "\<forall>x. map_of sd' x = (if x \<in> set ks then Some (f x) else map_of ?sd x)"
    by blast
  show ?case
  proof (cases "ks = []")
    case True
    with new show ?thesis
      by (intro exI [of _ ?sd]) (simp add: update_conv' Let_def)
  next
    case False
    with new run val show ?thesis
      by (intro exI [of _ sd']) (simp add: update_conv' Let_def)
  qed
qed

lemma new_status_None: "new_status k None = Inr (status_int unknown)"
  by (simp add: new_status_def)

lemma update_status_keys_list:
  "map fst (get_status_doc (snd (update_status j sj))) = map fst (get_status_doc j)"
proof -
  let ?sd = "get_status_doc j"
  let ?j0 = "case doc_status j of None \<Rightarrow> put_status_doc [] j | Some _ \<Rightarrow> j"
  have "get_status_doc ?j0 = ?sd"
    by (simp add: get_status_doc_def put_status_doc_def split: option.splits)
  then have "map fst (get_status_doc (snd (update_loop (map fst ?sd) sj ?sd ?j0))) = map fst ?sd"
    by (intro update_loop_keys) simp_all
  then show ?thesis by (simp add: update_status_def Let_def)
qed

lemma update_status_returns:
  assumes "\<forall>k \<in> fst ` set (get_status_doc j). new_status k sj = Inr (f k)"
  shows "fst (update_status j sj) = Returned ()
     \<and> (\<forall>k \<in> fst ` set (get_status_doc j).
           map_of (get_status_doc (snd (update_status j sj))) k = Some (f k))"
proof -
  let ?sd = "get_status_doc j"
  let ?j0 = "case doc_status j of None \<Rightarrow> put_status_doc [] j | Some _ \<Rightarrow> j"
  from assms have "\<forall>k \<in> set (map fst ?sd). new_status k sj = Inr (f k)" by simp
  from update_loop_returns [OF this, of ?sd ?j0]
  obtain sd' where
    run: "update_loop (map fst ?sd) sj ?sd ?j0 =
            (Returned (), if map fst ?sd = [] then ?j0 else put_status_doc sd' ?j0)"
    and val: "\<forall>k. map_of sd' k = (if k \<in> set (map fst ?sd) then Some (f k) else map_of ?sd k)"
    by blast
  show ?thesis
  proof (cases "?sd = []")
    case True
    then show ?thesis by (simp add: update_status_def Let_def)
  next
    case False
    with run val show ?thesis by (simp add: update_status_def Let_def)
  qed
qed

text \<open>
  Claim C5, as amended. Let every cluster job that the scheduler holds for an id of the
  status document report a status. Then \<^verbatim>\<open>update_status\<close> with that scheduler returns,
  and for every id of the document it has recorded: unknown when the scheduler has no job
  for the id, and the maximum of registered and the reported status when it has one.
\<close>

theorem update_status_with_scheduler:
  assumes "\<forall>jobsid \<in> fst ` set (get_status_doc j).
             \<forall>cjob. scheduler_jobs jobsid = Some cjob \<longrightarrow> status cjob \<noteq> None"
  shows "fst (update_status j (Some scheduler_jobs)) = Returned ()
     \<and> (\<forall>jobsid \<in> fst ` set (get_status_doc j).
          (scheduler_jobs jobsid = None \<longrightarrow>
             map_of (get_status_doc (snd (update_status j (Some scheduler_jobs)))) jobsid
               = Some (status_int unknown))
        \<and> (\<forall>cjob reported. scheduler_jobs jobsid = Some cjob \<longrightarrow> status cjob = Some reported \<longrightarrow>
             map_of (get_status_doc (snd (update_status j (Some scheduler_jobs)))) jobsid
               = Some (max (status_int registered) reported)))"
proof -
  define f where "f k =
    (case scheduler_jobs k of
       None \<Rightarrow> status_int unknown
     | Some cjob \<Rightarrow> (case status cjob of None \<Rightarrow> 0 | Some r \<Rightarrow> max (status_int registered) r))" for k
  have "new_status k (Some scheduler_jobs) = Inr (f k)" if "k \<in> fst ` set (get_status_doc j)" for k
  proof (cases "scheduler_jobs k")
    case None
    then show ?thesis
      by (simp add: new_status_def status_scheduler_def f_def py_max_def)
  next
    case (Some cjob)
    with assms that obtain r where "status cjob = Some r" by fastforce
    with Some show ?thesis
      by (simp add: new_status_def status_scheduler_def f_def py_max_def max_def)
  qed
  then have "\<forall>k \<in> fst ` set (get_status_doc j). new_status k (Some scheduler_jobs) = Inr (f k)"
    by blast
  from update_status_returns [OF this] show ?thesis
    by (auto simp: f_def)
qed

text \<open>
  On the example: a reported unknown is recorded as registered, a reported inactive
  stays inactive, an id the scheduler does not know becomes unknown.
\<close>

theorem update_status_with_scheduler_witness:
  "list_all (\<lambda>jobsid. case example_scheduler jobsid of None \<Rightarrow> True
                           | Some cjob \<Rightarrow> status cjob \<noteq> None)
     (map fst (get_status_doc example_job))
   \<and> fst (update_status example_job (Some example_scheduler)) = Returned ()
   \<and> map_of (get_status_doc (snd (update_status example_job (Some example_scheduler))))
        ''p-j1-default'' = Some (status_int registered)
   \<and> map_of (get_status_doc (snd (update_status example_job (Some example_scheduler))))
        ''p-j1-gpu'' = Some (status_int inactive)
   \<and> map_of (get_status_doc (snd (update_status example_job (Some example_scheduler))))
        ''p-j1-old'' = Some (status_int unknown)"
proof -
  have h: "\<forall>jobsid \<in> fst ` set (get_status_doc example_job).
      \<forall>cjob. example_scheduler jobsid = Some cjob \<longrightarrow> status cjob \<noteq> None"
    by (simp add: example_job_def example_scheduler_def get_status_doc_def status_def)
  have keys: "fst ` set (get_status_doc example_job) = {''p-j1-default'', ''p-j1-gpu'', ''p-j1-old''}"
    by (simp add: example_job_def get_status_doc_def)
  have sched: "example_scheduler ''p-j1-default'' = Some \<lparr>cj_job_id = ''1001'', cj_status = Some 1\<rparr>"
    "example_scheduler ''p-j1-gpu'' = Some \<lparr>cj_job_id = ''1002'', cj_status = Some 3\<rparr>"
    "example_scheduler ''p-j1-old'' = None"
    by (simp_all add: example_scheduler_def)
  have h': "list_all (\<lambda>jobsid. case example_scheduler jobsid of None \<Rightarrow> True
                           | Some cjob \<Rightarrow> status cjob \<noteq> None)
     (map fst (get_status_doc example_job))"
    by (simp add: example_job_def get_status_doc_def sched status_def)
  from update_status_with_scheduler [OF h] h' show ?thesis
    unfolding keys by (simp add: sched status_def)
qed

text \<open>
  Claim C5 as stated fails when a cluster job has no status: the loop reaches \<^verbatim>\<open>b\<close>
  first, \<^verbatim>\<open>max(JobStatus.registered, None)\<close> raises \<^verbatim>\<open>TypeError\<close>, and \<^verbatim>\<open>a\<close>, whose
  cluster job reports held (5), keeps its old status submitted (4).
\<close>

theorem update_status_unreported_counterexample:
  "map_of (get_status_doc unreported_job) ''a'' = Some 4
   \<and> unreported_scheduler ''a'' = Some \<lparr>cj_job_id = ''1'', cj_status = Some 5\<rparr>
   \<and> status \<lparr>cj_job_id = ''1'', cj_status = Some 5\<rparr> = Some 5
   \<and> fst (update_status unreported_job (Some unreported_scheduler)) = Raised TypeError
   \<and> map_of (get_status_doc (snd (update_status unreported_job (Some unreported_scheduler))))
        ''a'' = Some 4
   \<and> map_of (get_status_doc (snd (update_status unreported_job (Some unreported_scheduler))))
        ''a'' \<noteq> Some (max (status_int registered) 5)"
proof -
  have b: "new_status ''b'' (Some unreported_scheduler) = Inl TypeError"
    by (simp add: new_status_def status_scheduler_def unreported_scheduler_def status_def)
  have run: "update_status unreported_job (Some unreported_scheduler)
               = (Raised TypeError, unreported_job)"
    by (simp add: update_status_def get_status_doc_def unreported_job_def [symmetric] b)
       (simp add: unreported_job_def b)
  show ?thesis
    by (simp add: run) (simp add: unreported_job_def unreported_scheduler_def get_status_doc_def
        status_def)
qed

text \<open>
  Claim C6. Without a scheduler reference \<^verbatim>\<open>update_status\<close> returns and has set every
  entry of the status document to unknown.
\<close>

theorem update_status_without_scheduler:
  "fst (update_status j None) = Returned ()
   \<and> (\<forall>jobsid \<in> fst ` set (get_status_doc j).
         map_of (get_status_doc (snd (update_status j None))) jobsid = Some (status_int unknown))"
proof -
  have "\<forall>k \<in> fst ` set (get_status_doc j). new_status k None = Inr (status_int unknown)"
    by (simp add: new_status_None)
  from update_status_returns [OF this] show ?thesis .
qed

theorem update_status_without_scheduler_witness:
  "fst (update_status example_job None) = Returned ()
   \<and> map_of (get_status_doc (snd (update_status example_job None))) ''p-j1-default'' = Some 1
   \<and> map_of (get_status_doc (snd (update_status example_job None))) ''p-j1-gpu'' = Some 1
   \<and> map_of (get_status_doc (snd (update_status example_job None))) ''p-j1-old'' = Some 1"
proof -
  have keys: "fst ` set (get_status_doc example_job) = {''p-j1-default'', ''p-j1-gpu'', ''p-j1-old''}"
    by (simp add: example_job_def get_status_doc_def)
  from update_status_without_scheduler [of example_job] show ?thesis
    unfolding keys by simp
qed

text \<open>
  Claim C9. Whatever the scheduler argument, and whether the call returns or raises, the
  status document has the same keys after \<^verbatim>\<open>update_status\<close> as before (and in the same
  order): no entry is added, none is removed.
\<close>

theorem update_status_keeps_keys:
  "set (map fst (get_status_doc (snd (update_status j scheduler_jobs))))
     = set (map fst (get_status_doc j))
   \<and> map fst (get_status_doc (snd (update_status j scheduler_jobs)))
     = map fst (get_status_doc j)"
  by (simp only: update_status_keys_list simp_thms)

section \<open>Properties of the submission\<close>

subsection \<open>What set_status changes\<close>

lemma set_status_project_str [simp]:
  "project_str (proj (set_status sp k v s)) = project_str (proj s)"
  by (simp add: set_status_def Let_def)

lemma set_status_job_str [simp]:
  "job_str (open_job (proj (set_status sp k v s)) sp') = job_str (open_job (proj s) sp')"
  by (simp add: set_status_def Let_def open_job_def put_status_doc_def)

lemma set_status_jobsid_for [simp]:
  "jobsid_for (set_status sp k v s) sp' ident = jobsid_for s sp' ident"
  by (simp add: jobsid_for_def)

lemma set_status_lookup [simp]:
  "lookup_status (open_job (proj (set_status sp k v s)) sp) k = Inr (status_int v)"
  by (simp add: set_status_def Let_def open_job_def put_status_doc_def lookup_status_def
      update_conv')

lemma set_status_trace:
  "trace (set_status sp k v s) =
     trace s @ [DocWrite (job_str (open_job (proj s) sp))
                  (AList.update k (status_int v) (get_status_doc (open_job (proj s) sp)))]"
  by (simp add: set_status_def Let_def)

lemma set_status_calls [simp]: "calls (trace (set_status sp k v s)) = calls (trace s)"
  by (simp add: set_status_trace calls_def)

subsection \<open>The first try statement\<close>

lemma lookup_status_Inl: "lookup_status j k = Inl x \<Longrightarrow> x = KeyError"
  by (auto simp: lookup_status_def split: option.splits)

lemma init_status_present:
  "lookup_status (open_job (proj s) sp) k = Inr st \<Longrightarrow> init_status sp k s = (Returned st, s)"
  by (simp add: init_status_def)

lemma init_status_absent:
  assumes "lookup_status (open_job (proj s) sp) k = Inl x"
  shows "init_status sp k s = (Returned (status_int registered), set_status sp k registered s)"
proof -
  from assms have "x = KeyError" by (rule lookup_status_Inl)
  with assms show ?thesis by (simp add: init_status_def Let_def)
qed

lemma init_status_returns:
  "\<exists>st. init_status sp k s = (Returned st, snd (init_status sp k s))
      \<and> lookup_status (open_job (proj (snd (init_status sp k s))) sp) k = Inr st
      \<and> (st = status_int registered \<or> lookup_status (open_job (proj s) sp) k = Inr st)"
proof (cases "lookup_status (open_job (proj s) sp) k")
  case (Inl x)
  then show ?thesis by (simp add: init_status_absent)
next
  case (Inr st)
  then show ?thesis by (simp add: init_status_present)
qed

lemma submit_blocked_eq:
  assumes "lookup_status (open_job (proj s) sp) (jobsid_for s sp ident) = Inr st"
    and "st \<ge> status_int submitted"
  shows "submit e sp script ident False pretend args s = (Returned False, s)"
  using assms by (simp add: submit_def Let_def init_status_present blocked_def)

lemma submit_after_init:
  assumes "init_status sp (jobsid_for s sp ident) s = (Returned st, s1)"
  shows "submit e sp script ident force pretend args s =
           (if blocked force st then (Returned False, s1)
            else try_submit e sp
                   \<lparr>c_jobsid = jobsid_for s sp ident, c_script = script,
                      c_pretend = pretend, c_args = args\<rparr> s1)"
  using assms by (simp add: submit_def Let_def)

lemma init_status_cases:
  obtains st s1 where "init_status sp k s = (Returned st, s1)"
    and "s1 = snd (init_status sp k s)"
    and "lookup_status (open_job (proj s1) sp) k = Inr st"
    and "st = status_int registered \<or> lookup_status (open_job (proj s) sp) k = Inr st"
  using init_status_returns [of sp k s] by (metis snd_conv)

lemma submit_gate_passed:
  assumes "force \<or> (\<forall>st. lookup_status (open_job (proj s) sp) (jobsid_for s sp ident) = Inr st
                        \<longrightarrow> st < status_int submitted)"
  shows "submit e sp script ident force pretend args s =
           try_submit e sp
             \<lparr>c_jobsid = jobsid_for s sp ident, c_script = script, c_pretend = pretend, c_args = args\<rparr>
             (snd (init_status sp (jobsid_for s sp ident) s))"
proof -
  obtain st s1 where init: "init_status sp (jobsid_for s sp ident) s = (Returned st, s1)"
    and s1: "s1 = snd (init_status sp (jobsid_for s sp ident) s)"
    and st: "st = status_int registered
          \<or> lookup_status (open_job (proj s) sp) (jobsid_for s sp ident) = Inr st"
    by (rule init_status_cases)
  from st assms have "\<not> blocked force st"
    by (auto simp: blocked_def)
  with submit_after_init [OF init] s1 show ?thesis
    by simp
qed

subsection \<open>The second try statement\<close>

lemma try_submit_pretend:
  "c_pretend c \<Longrightarrow>
   try_submit e sp c s = (Returned True, set_status sp (c_jobsid c) submitted s)"
  by (simp add: try_submit_def attempt_def)

lemma try_submit_raised:
  "\<not> c_pretend c \<Longrightarrow> e (trace s) c = Raised x \<Longrightarrow>
   try_submit e sp c s =
     (Raised x, if is_Exception x
                then set_status sp (c_jobsid c) error (s\<lparr>trace := trace s @ [EnvSubmit c]\<rparr>)
                else s\<lparr>trace := trace s @ [EnvSubmit c]\<rparr>)"
  by (simp add: try_submit_def attempt_def Let_def)

lemma try_submit_returned:
  "\<not> c_pretend c \<Longrightarrow> e (trace s) c = Returned v \<Longrightarrow>
   try_submit e sp c s =
     (if truthy v
      then (Returned True, set_status sp (c_jobsid c) submitted (s\<lparr>trace := trace s @ [EnvSubmit c]\<rparr>))
      else (Raised AssertionError,
            set_status sp (c_jobsid c) error (s\<lparr>trace := trace s @ [EnvSubmit c]\<rparr>)))"
  by (simp add: try_submit_def attempt_def Let_def)

lemma try_submit_True:
  assumes "try_submit e sp c s = (Returned True, s')"
  shows "\<exists>s2. s' = set_status sp (c_jobsid c) submitted s2 \<and> proj s2 = proj s"
proof (cases "c_pretend c")
  case True
  with assms show ?thesis by (auto simp: try_submit_pretend)
next
  case False
  show ?thesis
  proof (cases "e (trace s) c")
    case (Returned v)
    with False assms show ?thesis
      by (cases "truthy v") (auto simp: try_submit_returned)
  next
    case (Raised x)
    with False assms show ?thesis by (simp add: try_submit_raised)
  qed
qed

lemma init_status_proj_facts:
  "project_str (proj (snd (init_status sp k s))) = project_str (proj s)
   \<and> job_str (open_job (proj (snd (init_status sp k s))) sp') = job_str (open_job (proj s) sp')"
  by (cases "lookup_status (open_job (proj s) sp) k")
     (simp_all add: init_status_absent init_status_present)

lemma submit_True_recorded:
  assumes "submit e sp script ident force pretend args s = (Returned True, s')"
  shows "lookup_status (open_job (proj s') sp) (jobsid_for s sp ident) = Inr (status_int submitted)
       \<and> jobsid_for s' sp ident = jobsid_for s sp ident"
proof -
  let ?k = "jobsid_for s sp ident"
  let ?c = "\<lparr>c_jobsid = ?k, c_script = script, c_pretend = pretend, c_args = args\<rparr>"
  obtain st s1 where init: "init_status sp ?k s = (Returned st, s1)"
    and s1: "s1 = snd (init_status sp ?k s)"
    by (rule init_status_cases)
  from assms submit_after_init [OF init, of e script force pretend args]
  have "try_submit e sp ?c s1 = (Returned True, s')"
    by (simp split: if_splits)
  from try_submit_True [OF this] obtain s2
    where s': "s' = set_status sp ?k submitted s2" and p: "proj s2 = proj s1"
    by auto
  have "jobsid_for s2 sp ident = ?k"
    using p s1 init_status_proj_facts [of sp ?k s sp] by (simp add: jobsid_for_def)
  with s' show ?thesis by simp
qed

subsection \<open>The gate\<close>

text \<open>
  Claim C1. When the status document holds, for the derived job-submission-id, a status
  of at least submitted, \<^verbatim>\<open>submit\<close> without \<^verbatim>\<open>force\<close> returns \<^verbatim>\<open>False\<close> and leaves
  the whole state as it was: no document is written and the trace gains no call of the
  environment. In particular, after a call of \<^verbatim>\<open>submit\<close> that returned \<^verbatim>\<open>True\<close> the
  recorded status is submitted, and a second call for the same state point and identifier
  without \<^verbatim>\<open>force\<close> returns \<^verbatim>\<open>False\<close> and changes nothing.
\<close>

theorem submit_blocked_when_submitted:
  "(lookup_status (open_job (proj s) sp) (jobsid_for s sp ident) = Inr st
      \<longrightarrow> st \<ge> status_int submitted
      \<longrightarrow> submit e sp script ident False pretend args s = (Returned False, s))
   \<and> (submit e sp script ident force pretend args s = (Returned True, s')
      \<longrightarrow> lookup_status (open_job (proj s') sp) (jobsid_for s' sp ident)
            = Inr (status_int submitted)
        \<and> submit e' sp script' ident False pretend' args' s' = (Returned False, s'))"
proof (intro conjI impI)
  assume "lookup_status (open_job (proj s) sp) (jobsid_for s sp ident) = Inr st"
    and "st \<ge> status_int submitted"
  then show "submit e sp script ident False pretend args s = (Returned False, s)"
    by (rule submit_blocked_eq)
next
  assume first: "submit e sp script ident force pretend args s = (Returned True, s')"
  from submit_True_recorded [OF first]
  show rec: "lookup_status (open_job (proj s') sp) (jobsid_for s' sp ident)
            = Inr (status_int submitted)"
    by simp
  show "submit e' sp script' ident False pretend' args' s' = (Returned False, s')"
    by (rule submit_blocked_eq [OF rec]) simp
qed

lemma example_lookup_1:
  "lookup_status (open_job (proj example_state) (Suc 0)) ''p-j1-default'' = Inr 4"
  by (simp add: example_state_def example_job_def open_job_def lookup_status_def)

lemma example_jobsid_0: "jobsid_for example_state 0 ''default'' = ''p-j0-default''"
  by (simp add: example_state_def jobsid_for_def jobsid_of_def open_job_def)

lemma example_jobsid_1: "jobsid_for example_state (Suc 0) ''default'' = ''p-j1-default''"
  by (simp add: example_state_def example_job_def jobsid_for_def jobsid_of_def open_job_def)

lemma example_lookup_0:
  "lookup_status (open_job (proj example_state) 0) ''p-j0-default'' = Inl KeyError"
  by (simp add: example_state_def open_job_def lookup_status_def)

lemma example_trace: "trace example_state = []"
  by (simp add: example_state_def)

lemma example_first_submit:
  "fst (submit env_accept 0 ''run.sh'' ''default'' False False [] example_state) = Returned True"
proof -
  have "force \<or> (\<forall>st. lookup_status (open_job (proj example_state) 0)
            (jobsid_for example_state 0 ''default'') = Inr st \<longrightarrow> st < status_int submitted)"
    for force
    by (simp add: example_jobsid_0 example_lookup_0)
  from submit_gate_passed [OF this] show ?thesis
    by (simp add: try_submit_returned env_accept_def)
qed

text \<open>
  On the example: state point 1 is recorded as submitted and is blocked; state point 0 is
  submitted successfully and blocked the second time.
\<close>

theorem submit_blocked_when_submitted_witness:
  "lookup_status (open_job (proj example_state) (Suc 0)) (jobsid_for example_state (Suc 0) ''default'')
     = Inr 4
   \<and> (4::int) \<ge> status_int submitted
   \<and> submit env_accept (Suc 0) ''run.sh'' ''default'' False False [] example_state
       = (Returned False, example_state)
   \<and> fst (submit env_accept 0 ''run.sh'' ''default'' False False [] example_state) = Returned True
   \<and> submit env_accept 0 ''run.sh'' ''default'' False False []
       (snd (submit env_accept 0 ''run.sh'' ''default'' False False [] example_state))
       = (Returned False, snd (submit env_accept 0 ''run.sh'' ''default'' False False [] example_state))"
proof -
  let ?first = "submit env_accept 0 ''run.sh'' ''default'' False False [] example_state"
  have a: "lookup_status (open_job (proj example_state) (Suc 0))
             (jobsid_for example_state (Suc 0) ''default'') = Inr 4"
    by (simp add: example_jobsid_1 example_lookup_1)
  have b: "?first = (Returned True, snd ?first)"
    using example_first_submit by (simp add: prod_eq_iff)
  from submit_blocked_when_submitted
    [where s = example_state and sp = "Suc 0" and ident = "''default''" and st = 4
       and e = env_accept and script = "''run.sh''" and pretend = False and args = "[]"
       and force = True and s' = example_state]
    submit_blocked_when_submitted
    [where s = example_state and sp = 0 and ident = "''default''"
       and e = env_accept and script = "''run.sh''" and pretend = False and args = "[]"
       and force = False and s' = "snd ?first" and e' = env_accept and script' = "''run.sh''"
       and pretend' = False and args' = "[]"]
    a b example_first_submit
  show ?thesis by simp
qed

subsection \<open>Exceptions and pretended submission\<close>

lemma example_init_0:
  "init_status 0 ''p-j0-default'' example_state
     = (Returned (status_int registered), set_status 0 ''p-j0-default'' registered example_state)"
  by (rule init_status_absent [OF example_lookup_0])

lemma example_gate_0:
  "force \<or> (\<forall>st. lookup_status (open_job (proj example_state) 0)
            (jobsid_for example_state 0 ''default'') = Inr st \<longrightarrow> st < status_int submitted)"
  by (simp add: example_jobsid_0 example_lookup_0)

text \<open>
  Claim C2, as amended. Let the call pass the gate (forced, or no recorded status of at
  least submitted) and let \<^verbatim>\<open>env.submit\<close> raise \<open>x\<close>. Then \<^verbatim>\<open>submit\<close> raises that same
  \<open>x\<close>. When \<open>x\<close> is an instance of \<^verbatim>\<open>Exception\<close>, the status recorded for the
  job-submission-id is error. When it is not (\<^verbatim>\<open>KeyboardInterrupt\<close>, \<^verbatim>\<open>SystemExit\<close>), the
  clause \<^verbatim>\<open>except Exception\<close> does not catch it and the documents stay as they were
  before the attempt.
\<close>

theorem submit_exception_recorded:
  assumes "force \<or> (\<forall>st. lookup_status (open_job (proj s) sp) (jobsid_for s sp ident) = Inr st
                        \<longrightarrow> st < status_int submitted)"
    and "e (trace (snd (init_status sp (jobsid_for s sp ident) s)))
           \<lparr>c_jobsid = jobsid_for s sp ident, c_script = script, c_pretend = False, c_args = args\<rparr>
         = Raised x"
  shows "fst (submit e sp script ident force False args s) = Raised x
     \<and> (is_Exception x \<longrightarrow>
          lookup_status (open_job (proj (snd (submit e sp script ident force False args s))) sp)
            (jobsid_for s sp ident) = Inr (status_int error))
     \<and> (\<not> is_Exception x \<longrightarrow>
          proj (snd (submit e sp script ident force False args s))
            = proj (snd (init_status sp (jobsid_for s sp ident) s)))"
  using assms(2) by (simp add: submit_gate_passed [OF assms(1)] try_submit_raised)

text \<open>
  On the example: the scheduler raises an error for state point 0; the error reaches the
  caller and the status recorded is error (8).
\<close>

theorem submit_exception_recorded_witness:
  "env_fail (trace (snd (init_status 0 (jobsid_for example_state 0 ''default'') example_state)))
      \<lparr>c_jobsid = jobsid_for example_state 0 ''default'', c_script = ''run.sh'',
         c_pretend = False, c_args = []\<rparr> = Raised (SchedulerError ''queue full'')
   \<and> is_Exception (SchedulerError ''queue full'')
   \<and> fst (submit env_fail 0 ''run.sh'' ''default'' False False [] example_state)
       = Raised (SchedulerError ''queue full'')
   \<and> lookup_status
        (open_job (proj (snd (submit env_fail 0 ''run.sh'' ''default'' False False [] example_state))) 0)
        ''p-j0-default'' = Inr 8"
proof -
  have r: "env_fail (trace (snd (init_status 0 (jobsid_for example_state 0 ''default'') example_state)))
      \<lparr>c_jobsid = jobsid_for example_state 0 ''default'', c_script = ''run.sh'',
         c_pretend = False, c_args = []\<rparr> = Raised (SchedulerError ''queue full'')"
    by (simp add: env_fail_def)
  have x: "is_Exception (SchedulerError ''queue full'')" by simp
  from submit_exception_recorded
    [where e = env_fail and force = False and s = example_state and sp = 0
       and ident = "''default''" and script = "''run.sh''" and args = "[]",
     OF example_gate_0 r] r x
  show ?thesis
    by (simp add: example_jobsid_0)
qed

text \<open>
  Claim C2 as stated fails for an exception that is not an instance of \<^verbatim>\<open>Exception\<close>:
  when the environment raises \<^verbatim>\<open>KeyboardInterrupt\<close>, \<^verbatim>\<open>submit\<close> raises it, and the status
  recorded is still registered, not error.
\<close>

theorem submit_interrupt_counterexample:
  "env_interrupt (trace (snd (init_status 0 (jobsid_for example_state 0 ''default'') example_state)))
      \<lparr>c_jobsid = jobsid_for example_state 0 ''default'', c_script = ''run.sh'',
         c_pretend = False, c_args = []\<rparr> = Raised KeyboardInterrupt
   \<and> fst (submit env_interrupt 0 ''run.sh'' ''default'' False False [] example_state)
       = Raised KeyboardInterrupt
   \<and> lookup_status
        (open_job (proj (snd (submit env_interrupt 0 ''run.sh'' ''default'' False False [] example_state))) 0)
        (jobsid_for example_state 0 ''default'') = Inr (status_int registered)
   \<and> lookup_status
        (open_job (proj (snd (submit env_interrupt 0 ''run.sh'' ''default'' False False [] example_state))) 0)
        (jobsid_for example_state 0 ''default'') \<noteq> Inr (status_int error)"
proof -
  have r: "env_interrupt t c = Raised KeyboardInterrupt" for t c
    by (simp add: env_interrupt_def)
  show ?thesis
    by (simp add: submit_gate_passed [OF example_gate_0] try_submit_raised r
        example_jobsid_0 example_init_0)
qed

text \<open>
  Claim C3. A call of \<^verbatim>\<open>submit\<close> with \<^verbatim>\<open>pretend=True\<close> that passes the gate returns
  \<^verbatim>\<open>True\<close>, adds no call of the environment to the trace, and records submitted for the
  job-submission-id.
\<close>

theorem submit_pretend_skips_env:
  assumes "force \<or> (\<forall>st. lookup_status (open_job (proj s) sp) (jobsid_for s sp ident) = Inr st
                        \<longrightarrow> st < status_int submitted)"
  shows "fst (submit e sp script ident force True args s) = Returned True
     \<and> calls (trace (snd (submit e sp script ident force True args s))) = calls (trace s)
     \<and> lookup_status (open_job (proj (snd (submit e sp script ident force True args s))) sp)
          (jobsid_for s sp ident) = Inr (status_int submitted)"
proof -
  have "calls (trace (snd (init_status sp k s))) = calls (trace s)" for k
    by (cases "lookup_status (open_job (proj s) sp) k")
       (simp_all add: init_status_absent init_status_present)
  then show ?thesis
    by (simp add: submit_gate_passed [OF assms] try_submit_pretend)
qed

text \<open>
  On the example, with an environment that would raise if it were called.
\<close>

theorem submit_pretend_skips_env_witness:
  "lookup_status (open_job (proj example_state) 0) (jobsid_for example_state 0 ''default'')
     = Inl KeyError
   \<and> fst (submit env_fail 0 ''run.sh'' ''default'' False True [] example_state) = Returned True
   \<and> calls (trace (snd (submit env_fail 0 ''run.sh'' ''default'' False True [] example_state))) = []
   \<and> lookup_status
        (open_job (proj (snd (submit env_fail 0 ''run.sh'' ''default'' False True [] example_state))) 0)
        ''p-j0-default'' = Inr 4"
  using submit_pretend_skips_env
    [where e = env_fail and force = False and s = example_state and sp = 0
       and ident = "''default''" and script = "''run.sh''" and args = "[]",
     OF example_gate_0]
  by (simp add: example_jobsid_0 example_lookup_0 example_trace calls_def)

subsection \<open>Order of events, false results, forced submission\<close>

lemma try_submit_trace_extends:
  "\<exists>rest. trace (snd (try_submit e sp c s)) = trace s @ rest"
proof (cases "c_pretend c")
  case True
  then show ?thesis by (simp add: try_submit_pretend set_status_trace)
next
  case False
  show ?thesis
  proof (cases "e (trace s) c")
    case (Returned v)
    with False show ?thesis by (simp add: try_submit_returned set_status_trace)
  next
    case (Raised x)
    with False show ?thesis by (simp add: try_submit_raised set_status_trace)
  qed
qed

lemma try_submit_calls:
  assumes "\<not> c_pretend c"
  shows "calls (trace (snd (try_submit e sp c s))) = calls (trace s) @ [EnvSubmit c]"
proof (cases "e (trace s) c")
  case (Returned v)
  with assms show ?thesis by (simp add: try_submit_returned) (simp add: calls_def)
next
  case (Raised x)
  with assms show ?thesis by (simp add: try_submit_raised) (simp add: calls_def)
qed

lemma try_submit_not_False: "fst (try_submit e sp c s) \<noteq> Returned False"
proof (cases "c_pretend c")
  case True
  then show ?thesis by (simp add: try_submit_pretend)
next
  case False
  show ?thesis
  proof (cases "e (trace s) c")
    case (Returned v)
    with False show ?thesis by (simp add: try_submit_returned)
  next
    case (Raised x)
    with False show ?thesis by (simp add: try_submit_raised)
  qed
qed

text \<open>
  Claim C4. When the status document has no entry for the derived job-submission-id, the
  first step of \<^verbatim>\<open>submit\<close> sets the entry to registered and writes the document; the
  gate and the attempt then run from the state that holds this entry (the gate lets
  registered pass), and in the trace of the whole call the write of registered is the
  first event, before any call of the environment.
\<close>

theorem submit_registers_first:
  assumes "lookup_status (open_job (proj s) sp) (jobsid_for s sp ident) = Inl KeyError"
  shows "init_status sp (jobsid_for s sp ident) s
           = (Returned (status_int registered),
              set_status sp (jobsid_for s sp ident) registered s)
     \<and> lookup_status (open_job (proj (set_status sp (jobsid_for s sp ident) registered s)) sp)
          (jobsid_for s sp ident) = Inr (status_int registered)
     \<and> submit e sp script ident force pretend args s
           = try_submit e sp
               \<lparr>c_jobsid = jobsid_for s sp ident, c_script = script, c_pretend = pretend,
                  c_args = args\<rparr>
               (set_status sp (jobsid_for s sp ident) registered s)
     \<and> (\<exists>rest. trace (snd (submit e sp script ident force pretend args s))
           = trace s
             @ DocWrite (job_str (open_job (proj s) sp))
                 (AList.update (jobsid_for s sp ident) (status_int registered)
                    (get_status_doc (open_job (proj s) sp)))
             # rest)"
proof -
  let ?k = "jobsid_for s sp ident"
  let ?c = "\<lparr>c_jobsid = ?k, c_script = script, c_pretend = pretend, c_args = args\<rparr>"
  let ?s1 = "set_status sp ?k registered s"
  have init: "init_status sp ?k s = (Returned (status_int registered), ?s1)"
    by (rule init_status_absent [OF assms])
  have gate: "force \<or> (\<forall>st. lookup_status (open_job (proj s) sp) ?k = Inr st
                        \<longrightarrow> st < status_int submitted)"
    by (simp add: assms)
  have run: "submit e sp script ident force pretend args s = try_submit e sp ?c ?s1"
    by (simp add: submit_gate_passed [OF gate] init)
  obtain rest where "trace (snd (try_submit e sp ?c ?s1)) = trace ?s1 @ rest"
    using try_submit_trace_extends [of e sp ?c ?s1] by blast
  with run have "trace (snd (submit e sp script ident force pretend args s))
      = trace s
        @ DocWrite (job_str (open_job (proj s) sp))
            (AList.update ?k (status_int registered) (get_status_doc (open_job (proj s) sp)))
        # rest"
    by (simp add: set_status_trace)
  with init run show ?thesis by simp
qed

text \<open>
  On the example: state point 0 has no status document; the first event of the call is
  the write of registered (2).
\<close>

theorem submit_registers_first_witness:
  "lookup_status (open_job (proj example_state) 0) (jobsid_for example_state 0 ''default'')
     = Inl KeyError
   \<and> init_status 0 ''p-j0-default'' example_state
       = (Returned 2, set_status 0 ''p-j0-default'' registered example_state)
   \<and> lookup_status (open_job (proj (set_status 0 ''p-j0-default'' registered example_state)) 0)
        ''p-j0-default'' = Inr 2
   \<and> (\<exists>rest. trace (snd (submit env_accept 0 ''run.sh'' ''default'' False False [] example_state))
         = DocWrite ''j0'' [(''p-j0-default'', 2)] # rest)"
proof -
  have h: "lookup_status (open_job (proj example_state) 0) (jobsid_for example_state 0 ''default'')
     = Inl KeyError"
    by (simp add: example_jobsid_0 example_lookup_0)
  have j: "job_str (open_job (proj example_state) 0) = ''j0''"
    "get_status_doc (open_job (proj example_state) 0) = []"
    by (simp_all add: example_state_def open_job_def get_status_doc_def)
  note w = submit_registers_first
    [where e = env_accept and force = False and pretend = False and s = example_state and sp = 0
       and ident = "''default''" and script = "''run.sh''" and args = "[]", OF h]
  from w [THEN conjunct1]
  have a: "init_status 0 ''p-j0-default'' example_state
       = (Returned 2, set_status 0 ''p-j0-default'' registered example_state)"
    by (simp add: example_jobsid_0)
  from w [THEN conjunct2, THEN conjunct1]
  have b: "lookup_status (open_job (proj (set_status 0 ''p-j0-default'' registered example_state)) 0)
        ''p-j0-default'' = Inr 2"
    by (simp add: example_jobsid_0)
  from w [THEN conjunct2, THEN conjunct2, THEN conjunct2]
  have c: "\<exists>rest. trace (snd (submit env_accept 0 ''run.sh'' ''default'' False False [] example_state))
         = DocWrite ''j0'' [(''p-j0-default'', 2)] # rest"
    by (simp add: example_jobsid_0 example_trace j)
  from h a b c show ?thesis by blast
qed

text \<open>
  Claim C10. Let the call pass the gate with \<^verbatim>\<open>pretend=False\<close>, and let \<^verbatim>\<open>env.submit\<close>
  return a value that is false in Python. Then \<^verbatim>\<open>submit\<close> raises \<^verbatim>\<open>AssertionError\<close>
  (it returns neither \<^verbatim>\<open>False\<close> nor \<^verbatim>\<open>True\<close>) and records error, and the result and the
  state are those of a call whose environment raises \<^verbatim>\<open>AssertionError\<close> itself.
\<close>

theorem submit_falsy_result:
  assumes "force \<or> (\<forall>st. lookup_status (open_job (proj s) sp) (jobsid_for s sp ident) = Inr st
                        \<longrightarrow> st < status_int submitted)"
    and "e (trace (snd (init_status sp (jobsid_for s sp ident) s)))
           \<lparr>c_jobsid = jobsid_for s sp ident, c_script = script, c_pretend = False, c_args = args\<rparr>
         = Returned v"
    and "\<not> truthy v"
  shows "fst (submit e sp script ident force False args s) = Raised AssertionError
     \<and> lookup_status (open_job (proj (snd (submit e sp script ident force False args s))) sp)
          (jobsid_for s sp ident) = Inr (status_int error)
     \<and> (e' (trace (snd (init_status sp (jobsid_for s sp ident) s)))
           \<lparr>c_jobsid = jobsid_for s sp ident, c_script = script, c_pretend = False, c_args = args\<rparr>
         = Raised AssertionError
        \<longrightarrow> submit e' sp script ident force False args s
            = submit e sp script ident force False args s)"
  using assms(2,3)
  by (simp add: submit_gate_passed [OF assms(1)] try_submit_returned try_submit_raised)

text \<open>
  On the example: the environment returns \<^verbatim>\<open>None\<close>.
\<close>

theorem submit_falsy_result_witness:
  "lookup_status (open_job (proj example_state) 0) (jobsid_for example_state 0 ''default'')
     = Inl KeyError
   \<and> env_refuse (trace (snd (init_status 0 (jobsid_for example_state 0 ''default'') example_state)))
      \<lparr>c_jobsid = jobsid_for example_state 0 ''default'', c_script = ''run.sh'',
         c_pretend = False, c_args = []\<rparr> = Returned PyNone
   \<and> \<not> truthy PyNone
   \<and> fst (submit env_refuse 0 ''run.sh'' ''default'' False False [] example_state)
       = Raised AssertionError
   \<and> lookup_status
        (open_job (proj (snd (submit env_refuse 0 ''run.sh'' ''default'' False False [] example_state))) 0)
        ''p-j0-default'' = Inr 8"
proof -
  have h: "lookup_status (open_job (proj example_state) 0) (jobsid_for example_state 0 ''default'')
     = Inl KeyError"
    by (simp add: example_jobsid_0 example_lookup_0)
  have r: "env_refuse (trace (snd (init_status 0 (jobsid_for example_state 0 ''default'') example_state)))
      \<lparr>c_jobsid = jobsid_for example_state 0 ''default'', c_script = ''run.sh'',
         c_pretend = False, c_args = []\<rparr> = Returned PyNone"
    by (simp add: env_refuse_def)
  have v: "\<not> truthy PyNone" by simp
  from submit_falsy_result
    [where e = env_refuse and force = False and s = example_state and sp = 0
       and ident = "''default''" and script = "''run.sh''" and args = "[]" and e' = env_refuse,
     OF example_gate_0 r v] h r v
  show ?thesis
    by (simp add: example_jobsid_0)
qed

text \<open>
  Claim C8, as amended. When the recorded status is at least submitted, \<^verbatim>\<open>submit\<close> with
  \<^verbatim>\<open>force=True\<close> is not stopped by the gate (it never returns \<^verbatim>\<open>False\<close>), and with
  \<^verbatim>\<open>pretend=False\<close> it calls \<^verbatim>\<open>env.submit\<close> once, with the job-submission-id, the script
  and the arguments.
\<close>

theorem submit_force_invokes_env:
  assumes "lookup_status (open_job (proj s) sp) (jobsid_for s sp ident) = Inr st"
    and "st \<ge> status_int submitted"
  shows "fst (submit e sp script ident True pretend args s) \<noteq> Returned False
     \<and> calls (trace (snd (submit e sp script ident True False args s)))
         = calls (trace s)
           @ [EnvSubmit \<lparr>c_jobsid = jobsid_for s sp ident, c_script = script,
                          c_pretend = False, c_args = args\<rparr>]"
proof -
  have gate: "True \<or> (\<forall>st. lookup_status (open_job (proj s) sp) (jobsid_for s sp ident) = Inr st
                        \<longrightarrow> st < status_int submitted)"
    by simp
  have "snd (init_status sp (jobsid_for s sp ident) s) = s"
    by (simp add: init_status_present [OF assms(1)])
  then show ?thesis
    by (simp add: submit_gate_passed [OF gate] try_submit_not_False try_submit_calls)
qed

text \<open>
  On the example: state point 1 is recorded as submitted and is submitted again.
\<close>

theorem submit_force_invokes_env_witness:
  "lookup_status (open_job (proj example_state) (Suc 0)) (jobsid_for example_state (Suc 0) ''default'')
     = Inr 4
   \<and> (4::int) \<ge> status_int submitted
   \<and> fst (submit env_accept (Suc 0) ''run.sh'' ''default'' True False [] example_state)
       \<noteq> Returned False
   \<and> calls (trace (snd (submit env_accept (Suc 0) ''run.sh'' ''default'' True False [] example_state)))
       = [EnvSubmit \<lparr>c_jobsid = ''p-j1-default'', c_script = ''run.sh'',
                      c_pretend = False, c_args = []\<rparr>]"
proof -
  have a: "lookup_status (open_job (proj example_state) (Suc 0))
             (jobsid_for example_state (Suc 0) ''default'') = Inr 4"
    by (simp add: example_jobsid_1 example_lookup_1)
  have b: "(4::int) \<ge> status_int submitted" by simp
  from submit_force_invokes_env
    [where e = env_accept and pretend = False and s = example_state and sp = "Suc 0"
       and ident = "''default''" and script = "''run.sh''" and args = "[]", OF a b] a
  show ?thesis
    by (simp add: example_jobsid_1 example_trace calls_def)
qed

text \<open>
  Claim C8 as stated fails with \<^verbatim>\<open>pretend=True\<close>: the forced call on a job recorded as
  submitted returns \<^verbatim>\<open>True\<close> without any call of the environment.
\<close>

theorem submit_force_pretend_counterexample:
  "lookup_status (open_job (proj example_state) (Suc 0)) (jobsid_for example_state (Suc 0) ''default'')
     = Inr (status_int submitted)
   \<and> fst (submit env_accept (Suc 0) ''run.sh'' ''default'' True True [] example_state)
       = Returned True
   \<and> calls (trace (snd (submit env_accept (Suc 0) ''run.sh'' ''default'' True True [] example_state)))
       = []"
proof -
  have a: "lookup_status (open_job (proj example_state) (Suc 0))
             (jobsid_for example_state (Suc 0) ''default'') = Inr 4"
    by (simp add: example_jobsid_1 example_lookup_1)
  have gate: "True \<or> (\<forall>st. lookup_status (open_job (proj example_state) (Suc 0))
        (jobsid_for example_state (Suc 0) ''default'') = Inr st \<longrightarrow> st < status_int submitted)"
    by simp
  have "snd (init_status (Suc 0) (jobsid_for example_state (Suc 0) ''default'') example_state)
          = example_state"
    by (simp add: init_status_present [OF a])
  with a show ?thesis
    by (simp add: submit_gate_passed [OF gate] try_submit_pretend example_trace)
       (simp add: calls_def)
qed

end
